theory Spec2Isabelle
  imports Main "HOL-Library.AList"
begin

section \<open>Data model of the plugin manager\<close>

text \<open>
  The development embeds \<^verbatim>\<open>src/endstone/plugin/simple_plugin_manager.cpp\<close> and the default
  hooks of \<^verbatim>\<open>include/endstone/plugin/plugin_loader.h\<close>. The member names of
  \<^verbatim>\<open>SimplePluginManager\<close> are kept without their trailing underscore.

  Objects that the manager reaches through raw pointers are identified by an address.
  A \<^verbatim>\<open>Plugin *\<close> is the position of the plugin in the owning vector \<^verbatim>\<open>plugins_\<close>
  (the vector only grows, or is emptied as a whole); a \<^verbatim>\<open>Permission *\<close> and a
  \<^verbatim>\<open>Permissible *\<close> are natural numbers. A pointer that may be null is an \<open>option\<close>.
\<close>

type_synonym addr = nat

text \<open>
  Modelled from the spec: the enumeration \<^verbatim>\<open>PermissibleRole\<close> is declared in a header that is
  not among the sources; the spec names the roles operator, non-operator and console.
\<close>

datatype PermissibleRole = Operator | NonOperator | Console

text \<open>
  A call into code outside the manager (a loader, the regex library, the file system)
  either returns a value or throws an exception.
\<close>

datatype 'a call = Throws | Returns 'a

text \<open>
  The ways in which a member function of the manager does not return. Two are undefined
  behaviour of the C++ code. The third: every member function is declared \<^verbatim>\<open>noexcept\<close> and
  none has a handler, so an exception that reaches one ends the process in
  \<^verbatim>\<open>std::terminate\<close>.
\<close>

datatype fault = NullLoaderDereference | EndIteratorDereference | Terminate

text \<open>
  A permission node: its name and its default policy, read by the code as
  \<^verbatim>\<open>permission.getDefault().hasPermission(role)\<close>.
\<close>

record Permission =
  permission_name :: string
  getDefault :: "PermissibleRole \<Rightarrow> bool"

text \<open>
  The constructor \<^verbatim>\<open>SimplePermission(name)\<close> is not among the sources: the default policy it
  gives a new node is the parameter \<open>dflt\<close>.
\<close>

definition SimplePermission :: "(PermissibleRole \<Rightarrow> bool) \<Rightarrow> string \<Rightarrow> Permission" where
  "SimplePermission dflt nm = \<lparr>permission_name = nm, getDefault = dflt\<rparr>"

text \<open>
  A plugin, with the parts of its description the manager reads:
  \<^verbatim>\<open>getDescription().getName()\<close>, \<^verbatim>\<open>getDescription().getFullName()\<close>,
  \<^verbatim>\<open>getDescription().getCommands()\<close> (the commands by name) and \<^verbatim>\<open>isEnabled()\<close>.
\<close>

record Plugin =
  getName :: string
  getFullName :: string
  getCommands :: "string list"
  isEnabled :: bool

text \<open>
  A loader: the two pure virtual functions of \<^verbatim>\<open>PluginLoader\<close>. \<^verbatim>\<open>loadPlugin\<close> is not
  \<^verbatim>\<open>noexcept\<close>: it throws, or it returns a \<^verbatim>\<open>unique_ptr\<close>, which is \<open>None\<close> when null.
  \<^verbatim>\<open>getPluginFileFilters\<close> is \<^verbatim>\<open>noexcept\<close>.
\<close>

record PluginLoader =
  PluginLoader_loadPlugin :: "string \<Rightarrow> Plugin option call"
  getPluginFileFilters :: "string list"

text \<open>
  The state of a \<^verbatim>\<open>SimplePluginManager\<close>. The header that declares the members is not among
  the sources, so the container types are read off their use in the code:
  \<^item> \<open>file_associations\<close>: pattern to owned loader (a \<^verbatim>\<open>unique_ptr\<close>, \<open>None\<close> when null);
    the code iterates over it, so it is an association list in the container's iteration
    order. Where a new key lands depends on the container; here it is put at the end, and
    what the functions return in the statements below is the same wherever it is put;
  \<^item> \<open>plugins\<close>: the owning vector; \<open>lookup_names\<close>: name to \<^verbatim>\<open>Plugin *\<close>;
  \<^item> \<open>permissions\<close>: canonical name to the owned node, whose object lives in
    \<open>permission_objects\<close> at that address; \<open>next_permission\<close> is the next address the
    allocator hands out;
  \<^item> \<open>default_permissions\<close>: role to \<^verbatim>\<open>vector<Permission *>\<close>, iterated by the code;
  \<^item> \<open>default_subscriptions\<close>, \<open>permission_subscriptions\<close>: key to a map from
    \<^verbatim>\<open>Permissible *\<close> to \<^verbatim>\<open>bool\<close>, whose keys the code lists;
  \<^item> \<open>logger_error\<close>: the messages given to \<^verbatim>\<open>server_.getLogger().error\<close>;
  \<^item> \<open>recalculated\<close>: the permissibles on which \<^verbatim>\<open>recalculatePermissions()\<close> was called,
    in call order.
\<close>

record SimplePluginManager =
  file_associations :: "(string \<times> PluginLoader option) list"
  plugins :: "Plugin list"
  lookup_names :: "string \<rightharpoonup> nat"
  permissions :: "string \<rightharpoonup> addr"
  permission_objects :: "addr \<rightharpoonup> Permission"
  next_permission :: addr
  default_permissions :: "(PermissibleRole \<times> addr list) list"
  default_subscriptions :: "PermissibleRole \<rightharpoonup> (addr \<times> bool) list"
  permission_subscriptions :: "string \<rightharpoonup> (addr \<times> bool) list"
  logger_error :: "string list"
  recalculated :: "addr list"

text \<open>
  A manager whose containers are all empty: what the constructor's initialiser list, which
  names only \<^verbatim>\<open>server_\<close> and \<^verbatim>\<open>command_map_\<close>, leaves behind.
\<close>

definition new_manager :: SimplePluginManager where
  "new_manager = \<lparr>file_associations = [], plugins = [], lookup_names = Map.empty,
     permissions = Map.empty, permission_objects = Map.empty, next_permission = 0,
     default_permissions = [], default_subscriptions = Map.empty,
     permission_subscriptions = Map.empty, logger_error = [], recalculated = []\<rparr>"

section \<open>Canonical permission names\<close>

text \<open>
  \<^verbatim>\<open>std::tolower\<close> on an \<^verbatim>\<open>unsigned char\<close>, in the C locale: the letters A to Z (65 to 90)
  move up by 32, every other byte stays.
\<close>

definition tolower :: "char \<Rightarrow> char" where
  "tolower c = (if 65 \<le> (of_char c :: nat) \<and> (of_char c :: nat) \<le> 90
                then char_of ((of_char c :: nat) + 32) else c)"

definition lower_name :: "string \<Rightarrow> string" where
  "lower_name nm = map tolower nm"

section \<open>Permission registry\<close>

definition getPermission :: "SimplePluginManager \<Rightarrow> string \<Rightarrow> addr option" where
  "getPermission st nm = permissions st (lower_name nm)"

definition getDefaultPermissionSubscriptions ::
  "SimplePluginManager \<Rightarrow> PermissibleRole \<Rightarrow> addr list" where
  "getDefaultPermissionSubscriptions st role =
     (case default_subscriptions st role of
        None \<Rightarrow> []
      | Some m \<Rightarrow> map fst m)"

definition updatePermissibles :: "SimplePluginManager \<Rightarrow> PermissibleRole \<Rightarrow> SimplePluginManager" where
  "updatePermissibles st role =
     st\<lparr>recalculated := recalculated st @ getDefaultPermissionSubscriptions st role\<rparr>"

text \<open>\<^verbatim>\<open>permissions.push_back(&permission)\<close> on the vector of one role.\<close>

definition push_back_for ::
  "PermissibleRole \<Rightarrow> addr \<Rightarrow> (PermissibleRole \<times> addr list) list \<Rightarrow> (PermissibleRole \<times> addr list) list" where
  "push_back_for role a dp = map (\<lambda>(r, ps). if r = role then (r, ps @ [a]) else (r, ps)) dp"

text \<open>
  The loop of \<^verbatim>\<open>calculatePermissionDefault\<close> over the roles of \<open>default_permissions\<close>.
  A \<^verbatim>\<open>Permission &\<close> is the address of the node together with the object it refers to.
\<close>

fun calculatePermissionDefault_loop ::
  "SimplePluginManager \<Rightarrow> addr \<Rightarrow> Permission \<Rightarrow> bool \<Rightarrow> PermissibleRole list \<Rightarrow> SimplePluginManager" where
  "calculatePermissionDefault_loop st a permission update [] = st"
| "calculatePermissionDefault_loop st a permission update (role # roles) =
     (if \<not> getDefault permission role
      then calculatePermissionDefault_loop st a permission update roles
      else
        let st1 = st\<lparr>default_permissions := push_back_for role a (default_permissions st)\<rparr>;
            st2 = (if update then updatePermissibles st1 role else st1)
        in calculatePermissionDefault_loop st2 a permission update roles)"

definition calculatePermissionDefault ::
  "SimplePluginManager \<Rightarrow> addr \<Rightarrow> Permission \<Rightarrow> bool \<Rightarrow> SimplePluginManager" where
  "calculatePermissionDefault st a permission update =
     calculatePermissionDefault_loop st a permission update (map fst (default_permissions st))"

definition already_defined :: "string \<Rightarrow> string" where
  "already_defined nm = ''The permission '' @ nm @ '' is already defined.''"

text \<open>
  \<^verbatim>\<open>addPermission(name, update)\<close>: \<^verbatim>\<open>permissions_.insert\<close> leaves an existing entry alone
  and reports it; the returned \<^verbatim>\<open>Permission &\<close> is the address of the node in the table.
\<close>

definition addPermission ::
  "(PermissibleRole \<Rightarrow> bool) \<Rightarrow> SimplePluginManager \<Rightarrow> string \<Rightarrow> bool \<Rightarrow> SimplePluginManager \<times> addr" where
  "addPermission dflt st nm update =
     (let lower = lower_name nm in
      case permissions st lower of
        Some a \<Rightarrow> (st\<lparr>logger_error := logger_error st @ [already_defined lower]\<rparr>, a)
      | None \<Rightarrow>
          let a = next_permission st;
              permission = SimplePermission dflt lower;
              st1 = st\<lparr>permissions := (permissions st)(lower \<mapsto> a),
                       permission_objects := (permission_objects st)(a \<mapsto> permission),
                       next_permission := Suc a\<rparr>
          in (calculatePermissionDefault st1 a permission update, a))"

text \<open>
  \<^verbatim>\<open>removePermission\<close>: \<^verbatim>\<open>permissions_.erase(lower_name)\<close> destroys the owned node; nothing
  else is written.
\<close>

definition removePermission :: "SimplePluginManager \<Rightarrow> string \<Rightarrow> SimplePluginManager" where
  "removePermission st nm =
     (let lower = lower_name nm in
      case permissions st lower of
        None \<Rightarrow> st
      | Some a \<Rightarrow> st\<lparr>permissions := (permissions st)(lower := None),
                      permission_objects := (permission_objects st)(a := None)\<rparr>)"

text \<open>
  \<^verbatim>\<open>getDefaultPermissions\<close>: \<^verbatim>\<open>default_permissions_.find(role)->second\<close> with no test
  against \<^verbatim>\<open>end()\<close>; dereferencing the end iterator is undefined behaviour.
\<close>

definition getDefaultPermissions ::
  "SimplePluginManager \<Rightarrow> PermissibleRole \<Rightarrow> fault + addr list" where
  "getDefaultPermissions st role =
     (case map_of (default_permissions st) role of
        None \<Rightarrow> Inl EndIteratorDereference
      | Some ps \<Rightarrow> Inr ps)"

text \<open>
  \<^verbatim>\<open>recalculatePermissionDefaults\<close>: the erase-remove of the node from every role's vector,
  then \<^verbatim>\<open>calculatePermissionDefault(permission, true)\<close>.
\<close>

definition recalculatePermissionDefaults ::
  "SimplePluginManager \<Rightarrow> addr \<Rightarrow> Permission \<Rightarrow> SimplePluginManager" where
  "recalculatePermissionDefaults st a permission =
     calculatePermissionDefault
       (st\<lparr>default_permissions := map (\<lambda>(r, ps). (r, removeAll a ps)) (default_permissions st)\<rparr>)
       a permission True"

section \<open>Subscription index\<close>

text \<open>\<^verbatim>\<open>m[key]\<close> on a map of maps: a missing key is inserted with an empty map.\<close>

definition subscript ::
  "('k \<rightharpoonup> (addr \<times> bool) list) \<Rightarrow> 'k \<Rightarrow> ('k \<rightharpoonup> (addr \<times> bool) list) \<times> (addr \<times> bool) list" where
  "subscript m k = (case m k of None \<Rightarrow> (m(k \<mapsto> []), []) | Some v \<Rightarrow> (m, v))"

definition subscribeToDefaultPermissions ::
  "SimplePluginManager \<Rightarrow> addr \<Rightarrow> PermissibleRole \<Rightarrow> SimplePluginManager" where
  "subscribeToDefaultPermissions st permissible role =
     (let (subs, m) = subscript (default_subscriptions st) role
      in st\<lparr>default_subscriptions := subs(role \<mapsto> AList.update permissible True m)\<rparr>)"

definition unsubscribeFromDefaultPermissions ::
  "SimplePluginManager \<Rightarrow> addr \<Rightarrow> PermissibleRole \<Rightarrow> SimplePluginManager" where
  "unsubscribeFromDefaultPermissions st permissible role =
     (let (subs, m) = subscript (default_subscriptions st) role
      in st\<lparr>default_subscriptions := subs(role \<mapsto> AList.delete permissible m)\<rparr>)"

text \<open>\<^verbatim>\<open>auto &map = permission_subscriptions_[lower_name]\<close>: the entry itself is written.\<close>

definition subscribeToPermission ::
  "SimplePluginManager \<Rightarrow> string \<Rightarrow> addr \<Rightarrow> SimplePluginManager" where
  "subscribeToPermission st permission permissible =
     (let lower = lower_name permission;
          (subs, m) = subscript (permission_subscriptions st) lower
      in st\<lparr>permission_subscriptions := subs(lower \<mapsto> AList.update permissible True m)\<rparr>)"

text \<open>
  \<^verbatim>\<open>auto map = permission_subscriptions_[lower_name]\<close>: without the \<^verbatim>\<open>&\<close> the local
  \<open>map_copy\<close> is a copy of the entry, the erase acts on the copy, and the copy is dropped
  when the function returns.
\<close>

definition unsubscribeFromPermission ::
  "SimplePluginManager \<Rightarrow> string \<Rightarrow> addr \<Rightarrow> SimplePluginManager" where
  "unsubscribeFromPermission st permission permissible =
     (let lower = lower_name permission;
          (subs, m) = subscript (permission_subscriptions st) lower;
          map_copy = AList.delete permissible m
      in st\<lparr>permission_subscriptions := subs\<rparr>)"

definition getPermissionSubscriptions :: "SimplePluginManager \<Rightarrow> string \<Rightarrow> addr list" where
  "getPermissionSubscriptions st permission =
     (case permission_subscriptions st (lower_name permission) of
        None \<Rightarrow> []
      | Some m \<Rightarrow> map fst m)"

section \<open>Plugin registry\<close>

text \<open>
  \<^verbatim>\<open>registerLoader\<close>: the loop assigns \<^verbatim>\<open>std::move(loader)\<close> to the entry of each pattern.
  The second argument of the loop is the local \<^verbatim>\<open>loader\<close>: a \<^verbatim>\<open>unique_ptr\<close> that has been
  moved from is null.
\<close>

fun registerLoader_loop ::
  "(string \<times> PluginLoader option) list \<Rightarrow> PluginLoader option \<Rightarrow> string list
     \<Rightarrow> (string \<times> PluginLoader option) list" where
  "registerLoader_loop fa loader [] = fa"
| "registerLoader_loop fa loader (pattern # patterns) =
     registerLoader_loop (AList.update pattern loader fa) None patterns"

definition registerLoader :: "SimplePluginManager \<Rightarrow> PluginLoader \<Rightarrow> SimplePluginManager" where
  "registerLoader st loader =
     (let patterns = getPluginFileFilters loader
      in st\<lparr>file_associations :=
              registerLoader_loop (file_associations st) (Some loader) patterns\<rparr>)"

definition getPlugin :: "SimplePluginManager \<Rightarrow> string \<Rightarrow> nat option" where
  "getPlugin st nm = (case lookup_names st nm of Some p \<Rightarrow> Some p | None \<Rightarrow> None)"

definition getPlugins :: "SimplePluginManager \<Rightarrow> nat list" where
  "getPlugins st = [0..<length (plugins st)]"

text \<open>
  \<^verbatim>\<open>isPluginEnabled(Plugin *)\<close>: null gives false; \<^verbatim>\<open>find_if\<close> finds the pointer exactly
  when it is the address of an element of the vector, and only then is it dereferenced.
\<close>

definition isPluginEnabled :: "SimplePluginManager \<Rightarrow> nat option \<Rightarrow> bool" where
  "isPluginEnabled st plugin =
     (case plugin of
        None \<Rightarrow> False
      | Some p \<Rightarrow> p < length (plugins st) \<and> isEnabled (plugins st ! p))"

definition isPluginEnabled_name :: "SimplePluginManager \<Rightarrow> string \<Rightarrow> bool" where
  "isPluginEnabled_name st nm = isPluginEnabled st (getPlugin st nm)"

text \<open>
  Modelled from the spec: the constant \<^verbatim>\<open>PluginDescription::ValidName\<close> is not among the
  sources; the spec gives the allowed names as one or more ASCII letters, digits and
  underscores.
\<close>

definition name_char :: "char \<Rightarrow> bool" where
  "name_char c =
     (let n = (of_char c :: nat)
      in (65 \<le> n \<and> n \<le> 90) \<or> (97 \<le> n \<and> n \<le> 122) \<or> (48 \<le> n \<and> n \<le> 57) \<or> n = 95)"

definition ValidName :: "string \<Rightarrow> bool" where
  "ValidName nm = (nm \<noteq> [] \<and> list_all name_char nm)"

text \<open>
  The file system as the code queries it: the status of a path (\<open>None\<close> when nothing is
  there) and the steps of a \<^verbatim>\<open>directory_iterator\<close> over a directory, each of which yields an
  entry or throws. The queries \<^verbatim>\<open>exists\<close>, \<^verbatim>\<open>is_regular_file\<close> and \<^verbatim>\<open>is_directory\<close> throw
  when the status cannot be read.
\<close>

datatype file_type = Regular | Directory | Other

record filesystem =
  status :: "string \<Rightarrow> file_type option call"
  directory_iterator :: "string \<Rightarrow> string call list"

definition exists_path :: "filesystem \<Rightarrow> string \<Rightarrow> bool call" where
  "exists_path fs p = (case status fs p of Throws \<Rightarrow> Throws | Returns s \<Rightarrow> Returns (s \<noteq> None))"

definition is_regular_file :: "filesystem \<Rightarrow> string \<Rightarrow> bool call" where
  "is_regular_file fs p =
     (case status fs p of Throws \<Rightarrow> Throws | Returns s \<Rightarrow> Returns (s = Some Regular))"

definition is_directory :: "filesystem \<Rightarrow> string \<Rightarrow> bool call" where
  "is_directory fs p =
     (case status fs p of Throws \<Rightarrow> Throws | Returns s \<Rightarrow> Returns (s = Some Directory))"

definition does_not_exist :: "string \<Rightarrow> string" where
  "does_not_exist file =
     ''Could not load plugin from '' @ [CHR 0x27] @ file @ [CHR 0x27] @ '': Provided file does not exist.''"

definition invalid_characters :: "string \<Rightarrow> string" where
  "invalid_characters file =
     ''Could not load plugin from '' @ [CHR 0x27] @ file @ [CHR 0x27]
       @ '': Plugin name contains invalid characters.''"

text \<open>
  The loop of \<^verbatim>\<open>loadPlugin\<close> over \<^verbatim>\<open>file_associations_\<close>. The parameter \<open>regex_search\<close>
  stands for \<^verbatim>\<open>std::regex r(pattern); std::regex_search(file.string(), r)\<close>, which throws
  on a pattern that is not a regular expression. \<^verbatim>\<open>loader->loadPlugin\<close> on a null loader
  is undefined behaviour. A loader that returns null lets the loop go on to the next
  pattern; an invalid name returns at once. The code has no test of \<^verbatim>\<open>lookup_names_\<close>
  before it writes the entry.
\<close>

fun loadPlugin_loop ::
  "(string \<Rightarrow> string \<Rightarrow> bool call) \<Rightarrow> SimplePluginManager \<Rightarrow> string
     \<Rightarrow> (string \<times> PluginLoader option) list \<Rightarrow> fault + (SimplePluginManager \<times> nat option)" where
  "loadPlugin_loop regex_search st file [] = Inr (st, None)"
| "loadPlugin_loop regex_search st file ((pattern, loader) # rest) =
     (case regex_search file pattern of
        Throws \<Rightarrow> Inl Terminate
      | Returns matched \<Rightarrow>
          if matched then
            (case loader of
               None \<Rightarrow> Inl NullLoaderDereference
             | Some l \<Rightarrow>
                 (case PluginLoader_loadPlugin l file of
                    Throws \<Rightarrow> Inl Terminate
                  | Returns None \<Rightarrow> loadPlugin_loop regex_search st file rest
                  | Returns (Some plugin) \<Rightarrow>
                      let plugin_ptr = length (plugins st);
                          nm = getName plugin
                      in if \<not> ValidName nm
                         then Inr (st\<lparr>logger_error := logger_error st @ [invalid_characters file]\<rparr>,
                                   None)
                         else Inr (st\<lparr>lookup_names := (lookup_names st)(nm \<mapsto> plugin_ptr),
                                      plugins := plugins st @ [plugin]\<rparr>,
                                   Some plugin_ptr)))
          else loadPlugin_loop regex_search st file rest)"

definition loadPlugin ::
  "(string \<Rightarrow> string \<Rightarrow> bool call) \<Rightarrow> filesystem \<Rightarrow> SimplePluginManager \<Rightarrow> string
     \<Rightarrow> fault + (SimplePluginManager \<times> nat option)" where
  "loadPlugin regex_search fs st file =
     (case exists_path fs file of
        Throws \<Rightarrow> Inl Terminate
      | Returns found \<Rightarrow>
          let st1 = (if \<not> found
                     then st\<lparr>logger_error := logger_error st @ [does_not_exist file]\<rparr>
                     else st)
          in loadPlugin_loop regex_search st1 file (file_associations st1))"

definition directory_does_not_exist :: "string \<Rightarrow> string" where
  "directory_does_not_exist d =
     ''Error occurred when trying to load plugins in '' @ [CHR 0x27] @ d @ [CHR 0x27]
       @ '': Provided directory does not exist.''"

definition not_a_directory :: "string \<Rightarrow> string" where
  "not_a_directory d =
     ''Error occurred when trying to load plugins in '' @ [CHR 0x27] @ d @ [CHR 0x27]
       @ '': Provided path is not a directory.''"

text \<open>
  The file that a directory entry stands for in \<^verbatim>\<open>loadPlugins\<close>, \<open>None\<close> where the loop
  says \<^verbatim>\<open>continue\<close>. In \<^verbatim>\<open>!exists(file) || !is_regular_file(file)\<close> the second query is
  made only when the first says that the file exists.
\<close>

definition candidate :: "filesystem \<Rightarrow> string \<Rightarrow> string option call" where
  "candidate fs entry =
     (case is_regular_file fs entry of
        Throws \<Rightarrow> Throws
      | Returns regular \<Rightarrow>
          if regular then Returns (Some entry)
          else
            (case is_directory fs entry of
               Throws \<Rightarrow> Throws
             | Returns dir \<Rightarrow>
                 if dir then
                   (let file = entry @ ''/plugin.toml''
                    in case exists_path fs file of
                         Throws \<Rightarrow> Throws
                       | Returns found \<Rightarrow>
                           if \<not> found then Returns None
                           else
                             (case is_regular_file fs file of
                                Throws \<Rightarrow> Throws
                              | Returns toml \<Rightarrow> if \<not> toml then Returns None else Returns (Some file)))
                 else Returns None))"

fun loadPlugins_loop ::
  "(string \<Rightarrow> string \<Rightarrow> bool call) \<Rightarrow> filesystem \<Rightarrow> SimplePluginManager \<Rightarrow> string call list
     \<Rightarrow> nat list \<Rightarrow> fault + (SimplePluginManager \<times> nat list)" where
  "loadPlugins_loop regex_search fs st [] loaded_plugins = Inr (st, loaded_plugins)"
| "loadPlugins_loop regex_search fs st (Throws # entries) loaded_plugins = Inl Terminate"
| "loadPlugins_loop regex_search fs st (Returns entry # entries) loaded_plugins =
     (case candidate fs entry of
        Throws \<Rightarrow> Inl Terminate
      | Returns None \<Rightarrow> loadPlugins_loop regex_search fs st entries loaded_plugins
      | Returns (Some file) \<Rightarrow>
          (case loadPlugin regex_search fs st file of
             Inl e \<Rightarrow> Inl e
           | Inr (st1, plugin) \<Rightarrow>
               (case plugin of
                  Some p \<Rightarrow> loadPlugins_loop regex_search fs st1 entries (loaded_plugins @ [p])
                | None \<Rightarrow> loadPlugins_loop regex_search fs st1 entries loaded_plugins)))"

definition loadPlugins ::
  "(string \<Rightarrow> string \<Rightarrow> bool call) \<Rightarrow> filesystem \<Rightarrow> SimplePluginManager \<Rightarrow> string
     \<Rightarrow> fault + (SimplePluginManager \<times> nat list)" where
  "loadPlugins regex_search fs st directory =
     (case exists_path fs directory of
        Throws \<Rightarrow> Inl Terminate
      | Returns found \<Rightarrow>
          if \<not> found
          then Inr (st\<lparr>logger_error := logger_error st @ [directory_does_not_exist directory]\<rparr>, [])
          else
            (case is_directory fs directory of
               Throws \<Rightarrow> Inl Terminate
             | Returns dir \<Rightarrow>
                 if \<not> dir
                 then Inr (st\<lparr>logger_error := logger_error st @ [not_a_directory directory]\<rparr>, [])
                 else loadPlugins_loop regex_search fs st (directory_iterator fs directory) []))"

section \<open>Enabling and disabling\<close>

text \<open>
  What enabling a plugin touches: the plugin itself, the command router and the plugin's
  logger. \<^verbatim>\<open>SimpleCommandMap\<close> is not among the sources: the router is the list of the
  \<^verbatim>\<open>registerAll(name, commands)\<close> calls it has received, and a \<^verbatim>\<open>PluginCommand\<close> is the
  name of the command it wraps. The plugin's logger is the list of its \<^verbatim>\<open>info\<close> messages.
\<close>

record enabling =
  plugin :: Plugin
  command_map :: "(string \<times> string list) list"
  logger_info :: "string list"

text \<open>The default hooks of \<^verbatim>\<open>PluginLoader\<close>.\<close>

definition PluginLoader_enablePlugin :: "enabling \<Rightarrow> enabling" where
  "PluginLoader_enablePlugin e =
     (if \<not> isEnabled (plugin e)
      then e\<lparr>logger_info := logger_info e @ [''Enabling '' @ getFullName (plugin e)],
              plugin := (plugin e)\<lparr>isEnabled := True\<rparr>\<rparr>
      else e)"

definition PluginLoader_disablePlugin :: "enabling \<Rightarrow> enabling" where
  "PluginLoader_disablePlugin e =
     (if isEnabled (plugin e)
      then e\<lparr>logger_info := logger_info e @ [''Disabling '' @ getFullName (plugin e)],
              plugin := (plugin e)\<lparr>isEnabled := False\<rparr>\<rparr>
      else e)"

text \<open>
  \<^verbatim>\<open>SimplePluginManager::enablePlugin\<close>; \<open>hook\<close> is the \<^verbatim>\<open>enablePlugin\<close> of the plugin's
  loader, a virtual function.
\<close>

definition enablePlugin :: "(enabling \<Rightarrow> enabling) \<Rightarrow> enabling \<Rightarrow> enabling" where
  "enablePlugin hook e =
     (if \<not> isEnabled (plugin e) then
        let commands = getCommands (plugin e);
            e1 = (if commands \<noteq> []
                  then e\<lparr>command_map := command_map e @ [(getName (plugin e), commands)]\<rparr>
                  else e)
        in hook e1
      else e)"

definition disablePlugin :: "(enabling \<Rightarrow> enabling) \<Rightarrow> enabling \<Rightarrow> enabling" where
  "disablePlugin hook e = (if isEnabled (plugin e) then hook e else e)"

section \<open>Notions used in the statements\<close>

text \<open>
  Equality of names up to ASCII case, stated without \<open>tolower\<close>: two characters are the
  same letter when they are equal or when one is an upper-case ASCII letter and the other
  lies 32 above it.
\<close>

definition ascii_upper :: "char \<Rightarrow> bool" where
  "ascii_upper c = (65 \<le> (of_char c :: nat) \<and> (of_char c :: nat) \<le> 90)"

definition same_letter :: "char \<Rightarrow> char \<Rightarrow> bool" where
  "same_letter c d =
     (c = d \<or> (ascii_upper c \<and> (of_char d :: nat) = of_char c + 32)
            \<or> (ascii_upper d \<and> (of_char c :: nat) = of_char d + 32))"

definition equal_ignoring_case :: "string \<Rightarrow> string \<Rightarrow> bool" where
  "equal_ignoring_case m n = list_all2 same_letter m n"

text \<open>
  The candidates of a directory scan, in the order of the scan; \<open>Throws\<close> when the
  iterator or a status query of the scan throws.
\<close>

fun candidates_of :: "filesystem \<Rightarrow> string call list \<Rightarrow> string list call" where
  "candidates_of fs [] = Returns []"
| "candidates_of fs (Throws # entries) = Throws"
| "candidates_of fs (Returns entry # entries) =
     (case candidate fs entry of
        Throws \<Rightarrow> Throws
      | Returns c \<Rightarrow>
          (case candidates_of fs entries of
             Throws \<Rightarrow> Throws
           | Returns cs \<Rightarrow> Returns (case c of None \<Rightarrow> cs | Some file \<Rightarrow> file # cs)))"

definition candidates :: "filesystem \<Rightarrow> string \<Rightarrow> string list call" where
  "candidates fs directory = candidates_of fs (directory_iterator fs directory)"

text \<open>
  The plugin that \<^verbatim>\<open>loadPlugin\<close> registers when it is called on one file alone from the
  state \<open>st\<close>; \<open>None\<close> when that call fails.
\<close>

definition loaded_alone ::
  "(string \<Rightarrow> string \<Rightarrow> bool call) \<Rightarrow> filesystem \<Rightarrow> SimplePluginManager \<Rightarrow> string \<Rightarrow> Plugin option" where
  "loaded_alone regex_search fs st file =
     (case loadPlugin regex_search fs st file of
        Inl e \<Rightarrow> None
      | Inr (st1, ptr) \<Rightarrow>
          (case ptr of
             None \<Rightarrow> None
           | Some p \<Rightarrow> if p < length (plugins st1) then Some (plugins st1 ! p) else None))"

text \<open>
  \<^verbatim>\<open>loadPlugin\<close>, called on one file alone from the state \<open>st\<close>, returns, with a plugin or
  with a null pointer: it neither reaches a null loader nor meets an exception.
\<close>

definition load_returns ::
  "(string \<Rightarrow> string \<Rightarrow> bool call) \<Rightarrow> filesystem \<Rightarrow> SimplePluginManager \<Rightarrow> string \<Rightarrow> bool" where
  "load_returns regex_search fs st file =
     (case loadPlugin regex_search fs st file of Inl e \<Rightarrow> False | Inr r \<Rightarrow> True)"

text \<open>
  The decision of \<^verbatim>\<open>loadPlugin\<close>, without the state: the plugin that gets registered, or
  the fault. It is used in the proofs only.
\<close>

fun materialize ::
  "(string \<Rightarrow> string \<Rightarrow> bool call) \<Rightarrow> string \<Rightarrow> (string \<times> PluginLoader option) list
     \<Rightarrow> fault + Plugin option" where
  "materialize rs file [] = Inr None"
| "materialize rs file ((pattern, loader) # rest) =
     (case rs file pattern of
        Throws \<Rightarrow> Inl Terminate
      | Returns matched \<Rightarrow>
          if matched then
            (case loader of
               None \<Rightarrow> Inl NullLoaderDereference
             | Some l \<Rightarrow>
                 (case PluginLoader_loadPlugin l file of
                    Throws \<Rightarrow> Inl Terminate
                  | Returns None \<Rightarrow> materialize rs file rest
                  | Returns (Some pl) \<Rightarrow> if ValidName (getName pl) then Inr (Some pl) else Inr None))
          else materialize rs file rest)"

definition decide ::
  "(string \<Rightarrow> string \<Rightarrow> bool call) \<Rightarrow> filesystem \<Rightarrow> (string \<times> PluginLoader option) list
     \<Rightarrow> string \<Rightarrow> fault + Plugin option" where
  "decide rs fs fa file =
     (case exists_path fs file of Throws \<Rightarrow> Inl Terminate | Returns found \<Rightarrow> materialize rs file fa)"

subsection \<open>Concrete inputs\<close>

text \<open>
  A pattern made of letters only is a regular expression that matches exactly where it
  occurs in the text: on such patterns \<^verbatim>\<open>std::regex_search\<close> returns, and it is substring
  search.
\<close>

fun occurs_in :: "string \<Rightarrow> string \<Rightarrow> bool" where
  "occurs_in [] pattern = (pattern = [])"
| "occurs_in (c # cs) pattern =
     (take (length pattern) (c # cs) = pattern \<or> occurs_in cs pattern)"

definition literal_search :: "string \<Rightarrow> string \<Rightarrow> bool call" where
  "literal_search file pattern = Returns (occurs_in file pattern)"

definition example_plugin :: Plugin where
  "example_plugin = \<lparr>getName = ''example'', getFullName = ''example v1.0'',
     getCommands = [''hello''], isEnabled = False\<rparr>"

text \<open>A loader for one pattern, to which the file \<^verbatim>\<open>plugins/broken.so\<close> is malformed.\<close>

definition so_loader :: PluginLoader where
  "so_loader = \<lparr>PluginLoader_loadPlugin =
       (\<lambda>file. if file = ''plugins/broken.so'' then Returns None else Returns (Some example_plugin)),
     getPluginFileFilters = [''so'']\<rparr>"

text \<open>A loader for one pattern that throws on the malformed file.\<close>

definition throwing_loader :: PluginLoader where
  "throwing_loader = \<lparr>PluginLoader_loadPlugin =
       (\<lambda>file. if file = ''plugins/broken.so'' then Throws else Returns (Some example_plugin)),
     getPluginFileFilters = [''so'']\<rparr>"

text \<open>A loader that declares two patterns.\<close>

definition native_loader :: PluginLoader where
  "native_loader = \<lparr>PluginLoader_loadPlugin = (\<lambda>file. Returns (Some example_plugin)),
     getPluginFileFilters = [''so'', ''dll'']\<rparr>"

definition example_fs :: filesystem where
  "example_fs = \<lparr>status = (\<lambda>p. Returns
       ([''plugins'' \<mapsto> Directory, ''plugins/broken.so'' \<mapsto> Regular,
         ''plugins/good.so'' \<mapsto> Regular, ''plugins/other.so'' \<mapsto> Regular,
         ''plugins/native.dll'' \<mapsto> Regular, ''plugins/empty'' \<mapsto> Directory] p)),
     directory_iterator = (\<lambda>d. if d = ''plugins''
        then [Returns ''plugins/broken.so'', Returns ''plugins/empty'',
              Returns ''plugins/native.dll'', Returns ''plugins/good.so'']
        else [])\<rparr>"

text \<open>The same files, read by an iterator that throws after its first entry.\<close>

definition failing_iterator_fs :: filesystem where
  "failing_iterator_fs =
     example_fs\<lparr>directory_iterator := (\<lambda>d. [Returns ''plugins/good.so'', Throws])\<rparr>"

definition so_registered :: SimplePluginManager where
  "so_registered = new_manager\<lparr>file_associations := [(''so'', Some so_loader)]\<rparr>"

definition throwing_registered :: SimplePluginManager where
  "throwing_registered = new_manager\<lparr>file_associations := [(''so'', Some throwing_loader)]\<rparr>"

definition native_registered :: SimplePluginManager where
  "native_registered =
     new_manager\<lparr>file_associations := [(''so'', Some native_loader), (''dll'', None)]\<rparr>"

definition one_loaded :: SimplePluginManager where
  "one_loaded = so_registered\<lparr>lookup_names := [''example'' \<mapsto> 0], plugins := [example_plugin]\<rparr>"

definition two_loaded :: SimplePluginManager where
  "two_loaded = one_loaded\<lparr>lookup_names := [''example'' \<mapsto> 1],
     plugins := [example_plugin, example_plugin]\<rparr>"

definition registered_plugin :: SimplePluginManager where
  "registered_plugin = new_manager\<lparr>plugins := [example_plugin], lookup_names := [''example'' \<mapsto> 0]\<rparr>"

definition granted_to_operator :: "PermissibleRole \<Rightarrow> bool" where
  "granted_to_operator role = (role = Operator)"

text \<open>
  Modelled from the spec: the declaration of \<^verbatim>\<open>default_permissions_\<close>, with the entries the
  member starts with, is in a header that is not among the sources. No function of the
  source file adds a role to the table: the loops of \<^verbatim>\<open>calculatePermissionDefault\<close> and
  \<^verbatim>\<open>recalculatePermissionDefaults\<close> visit only the roles that have an entry, and
  \<^verbatim>\<open>getDefaultPermissions\<close> is defined only for such a role. The spec has the table
  pre-populated with all known roles. \<open>with_roles\<close> is such a manager: an entry for every
  role, the permissible 7 subscribed to the defaults of operators and 8 to those of
  non-operators.
\<close>

definition with_roles :: SimplePluginManager where
  "with_roles = new_manager\<lparr>default_permissions := [(Operator, []), (NonOperator, []), (Console, [])],
      default_subscriptions := [Operator \<mapsto> [(7, True)], NonOperator \<mapsto> [(8, True)]]\<rparr>"

definition x_added :: SimplePluginManager where
  "x_added = with_roles\<lparr>permissions := [''x'' \<mapsto> 0],
        permission_objects := [0 \<mapsto> SimplePermission granted_to_operator ''x''],
        next_permission := 1,
        default_permissions := [(Operator, [0]), (NonOperator, []), (Console, [])],
        recalculated := [7]\<rparr>"

text \<open>
  Modelled from the spec: \<^verbatim>\<open>addPermission\<close> creates a node with a default-allow-none policy
  (the constructor \<^verbatim>\<open>SimplePermission\<close> is not among the sources).
\<close>

definition allow_none :: "PermissibleRole \<Rightarrow> bool" where
  "allow_none role = False"

text \<open>The manager \<open>with_roles\<close> after \<^verbatim>\<open>addPermission("x")\<close>.\<close>

definition x_plain :: SimplePluginManager where
  "x_plain = with_roles\<lparr>permissions := [''x'' \<mapsto> 0],
        permission_objects := [0 \<mapsto> SimplePermission allow_none ''x''],
        next_permission := 1\<rparr>"

text \<open>
  The node \<^verbatim>\<open>x\<close> once its policy grants the permission to operators, and the manager at
  that moment: the policy is a member of the node, which its owner may set; the members
  of the manager are as they were.
\<close>

definition operator_x :: Permission where
  "operator_x = \<lparr>permission_name = ''x'', getDefault = granted_to_operator\<rparr>"

definition x_policy_set :: SimplePluginManager where
  "x_policy_set = x_plain\<lparr>permission_objects := [0 \<mapsto> operator_x]\<rparr>"

text \<open>The manager after \<^verbatim>\<open>recalculatePermissionDefaults\<close> on that node.\<close>

definition x_granted :: SimplePluginManager where
  "x_granted = x_policy_set\<lparr>
        default_permissions := [(Operator, [0]), (NonOperator, []), (Console, [])],
        recalculated := [7]\<rparr>"

text \<open>A manager with empty containers after \<^verbatim>\<open>addPermission("Foo.Bar")\<close>.\<close>

definition foo_bar_added :: SimplePluginManager where
  "foo_bar_added = new_manager\<lparr>permissions := [''foo.bar'' \<mapsto> 0],
        permission_objects := [0 \<mapsto> SimplePermission allow_none ''foo.bar''],
        next_permission := 1\<rparr>"

definition enabling_example :: enabling where
  "enabling_example = \<lparr>plugin = example_plugin, command_map = [], logger_info = []\<rparr>"

definition enabled_example :: enabling where
  "enabled_example = \<lparr>plugin = example_plugin\<lparr>isEnabled := True\<rparr>,
     command_map = [(''example'', [''hello''])], logger_info = [''Enabling example v1.0'']\<rparr>"

section \<open>Auxiliary facts\<close>

lemma char_of_add32:
  "(of_char d :: nat) = of_char c + 32 \<Longrightarrow> char_of ((of_char c :: nat) + 32) = d"
  by (metis char_of_char)

lemma same_letter_tolower: "same_letter c d \<Longrightarrow> tolower c = tolower d"
  unfolding same_letter_def ascii_upper_def tolower_def
  by (auto simp: char_of_add32)

lemma equal_ignoring_case_lower_name:
  "equal_ignoring_case m n \<Longrightarrow> lower_name m = lower_name n"
  unfolding equal_ignoring_case_def lower_name_def
  by (induction m n rule: list_all2_induct) (auto dest: same_letter_tolower)

lemma tolower_same_letter: "tolower c = tolower d \<Longrightarrow> same_letter c d"
proof -
  assume eq: "tolower c = tolower d"
  have inj: "(of_char c :: nat) \<le> 90 \<Longrightarrow> (of_char d :: nat) \<le> 90 \<Longrightarrow>
      char_of ((of_char c :: nat) + 32) = (char_of ((of_char d :: nat) + 32) :: char) \<Longrightarrow> c = d"
  proof -
    assume c: "(of_char c :: nat) \<le> 90" and d: "(of_char d :: nat) \<le> 90"
      and e: "char_of ((of_char c :: nat) + 32) = (char_of ((of_char d :: nat) + 32) :: char)"
    have "(of_char (char_of ((of_char c :: nat) + 32) :: char) :: nat)
        = of_char (char_of ((of_char d :: nat) + 32) :: char)"
      using e by simp
    then have "((of_char c :: nat) + 32) mod 256 = ((of_char d :: nat) + 32) mod 256"
      by (simp only: of_char_of)
    then have "(of_char c :: nat) = of_char d"
      using c d by simp
    then show "c = d"
      by (metis char_of_char)
  qed
  have up: "(of_char x :: nat) \<le> 90 \<Longrightarrow>
      (of_char (char_of ((of_char x :: nat) + 32) :: char) :: nat) = of_char x + 32" for x :: char
    by simp
  show ?thesis
    using eq inj up [of c] up [of d]
    unfolding same_letter_def ascii_upper_def tolower_def
    by (auto split: if_splits)
qed

lemma lower_name_equal_ignoring_case:
  "lower_name m = lower_name n \<Longrightarrow> equal_ignoring_case m n"
  unfolding equal_ignoring_case_def lower_name_def
proof (induction m arbitrary: n)
  case Nil
  then show ?case by simp
next
  case (Cons c m)
  then obtain d n' where n: "n = d # n'" by (cases n) auto
  with Cons show ?case
    by (auto intro: tolower_same_letter)
qed

lemma same_letter_lowered: "same_letter (tolower c) c"
  unfolding same_letter_def ascii_upper_def tolower_def
  by simp

lemma lower_name_same: "equal_ignoring_case (lower_name n) n"
  unfolding equal_ignoring_case_def lower_name_def
  by (induction n) (simp_all add: same_letter_lowered)

lemma tolower_not_upper: "\<not> ascii_upper (tolower c)"
  unfolding ascii_upper_def tolower_def
  by simp

lemma lower_name_no_upper: "list_all (\<lambda>c. \<not> ascii_upper c) (lower_name n)"
  unfolding lower_name_def
  by (induction n) (simp_all add: tolower_not_upper)

lemma calculatePermissionDefault_loop_objects:
  "permission_objects (calculatePermissionDefault_loop st a p u roles) = permission_objects st"
  by (induction roles arbitrary: st) (auto simp: Let_def updatePermissibles_def)

lemma calculatePermissionDefault_loop_permissions:
  "permissions (calculatePermissionDefault_loop st a p u roles) = permissions st"
  by (induction roles arbitrary: st) (auto simp: Let_def updatePermissibles_def)

lemma calculatePermissionDefault_permissions:
  "permissions (calculatePermissionDefault st a p u) = permissions st"
  by (simp add: calculatePermissionDefault_def calculatePermissionDefault_loop_permissions)

lemma addPermission_registers:
  "addPermission dflt st X u = (st1, a) \<Longrightarrow> permissions st1 (lower_name X) = Some a"
  by (auto simp: addPermission_def Let_def calculatePermissionDefault_permissions
      split: option.splits)

lemma addPermission_other_names:
  "addPermission dflt st X u = (st1, a) \<Longrightarrow> k \<noteq> lower_name X \<Longrightarrow>
   permissions st1 k = permissions st k"
  by (auto simp: addPermission_def Let_def calculatePermissionDefault_permissions
      split: option.splits)

lemma addPermission_new_object:
  "addPermission dflt st X u = (st1, a) \<Longrightarrow> getPermission st X = None \<Longrightarrow>
   permission_objects st1 a = Some \<lparr>permission_name = lower_name X, getDefault = dflt\<rparr>"
  by (auto simp: addPermission_def Let_def getPermission_def calculatePermissionDefault_def
      calculatePermissionDefault_loop_objects SimplePermission_def split: option.splits)

text \<open>
  Whatever the state, \<^verbatim>\<open>removePermission\<close> leaves every role's default set and the list of
  notified permissibles as they were.
\<close>

lemma removePermission_keeps_defaults:
  "default_permissions (removePermission st nm) = default_permissions st
   \<and> recalculated (removePermission st nm) = recalculated st"
  by (simp add: removePermission_def Let_def split: option.splits)

lemma addPermission_x: "addPermission granted_to_operator with_roles ''x'' True = (x_added, 0)"
  by (simp add: addPermission_def Let_def with_roles_def x_added_def new_manager_def
      lower_name_def tolower_def calculatePermissionDefault_def SimplePermission_def
      granted_to_operator_def push_back_for_def updatePermissibles_def
      getDefaultPermissionSubscriptions_def)

text \<open>
  What \<^verbatim>\<open>loadPlugin\<close> returns and what it appends to \<open>plugins\<close> is decided by the file, the
  file system and the table of loaders alone.
\<close>

lemma loadPlugin_loop_fault:
  "materialize rs path fa = Inl e \<Longrightarrow> loadPlugin_loop rs st path fa = Inl e"
  by (induction rs path fa rule: materialize.induct)
     (auto split: call.splits option.splits if_splits)

lemma loadPlugin_loop_outcome:
  "materialize rs path fa = Inr r \<Longrightarrow>
   \<exists>st1. loadPlugin_loop rs st path fa = Inr (st1, map_option (\<lambda>pl. length (plugins st)) r)
       \<and> plugins st1 = plugins st @ (case r of None \<Rightarrow> [] | Some pl \<Rightarrow> [pl])
       \<and> file_associations st1 = file_associations st"
  by (induction rs path fa rule: materialize.induct)
     (auto simp: Let_def split: call.splits option.splits if_splits)

lemma loadPlugin_fault:
  "decide rs fs (file_associations st) path = Inl e \<Longrightarrow> loadPlugin rs fs st path = Inl e"
  by (auto simp: decide_def loadPlugin_def Let_def loadPlugin_loop_fault split: call.splits)

lemma loadPlugin_outcome:
  assumes "decide rs fs (file_associations st) path = Inr r"
  shows "\<exists>st1. loadPlugin rs fs st path = Inr (st1, map_option (\<lambda>pl. length (plugins st)) r)
       \<and> plugins st1 = plugins st @ (case r of None \<Rightarrow> [] | Some pl \<Rightarrow> [pl])
       \<and> file_associations st1 = file_associations st"
proof (cases "exists_path fs path")
  case Throws
  then show ?thesis
    using assms by (simp add: decide_def)
next
  case (Returns found)
  then have m: "materialize rs path (file_associations st) = Inr r"
    using assms by (simp add: decide_def)
  show ?thesis
  proof (cases found)
    case True
    then show ?thesis
      using Returns loadPlugin_loop_outcome [OF m, of st] by (simp add: loadPlugin_def)
  next
    case False
    then show ?thesis
      using Returns
        loadPlugin_loop_outcome [OF m, of "st\<lparr>logger_error := logger_error st @ [does_not_exist path]\<rparr>"]
      by (simp add: loadPlugin_def)
  qed
qed

lemma load_returns_decide:
  "load_returns rs fs st path
     = (case decide rs fs (file_associations st) path of Inl e \<Rightarrow> False | Inr r \<Rightarrow> True)"
proof (cases "decide rs fs (file_associations st) path")
  case (Inl e)
  then show ?thesis
    using loadPlugin_fault [OF Inl] by (simp add: load_returns_def)
next
  case (Inr r)
  then show ?thesis
    using loadPlugin_outcome [OF Inr] by (auto simp: load_returns_def)
qed

lemma loaded_alone_decide:
  "loaded_alone rs fs st path
     = (case decide rs fs (file_associations st) path of Inl e \<Rightarrow> None | Inr r \<Rightarrow> r)"
proof (cases "decide rs fs (file_associations st) path")
  case (Inl e)
  then show ?thesis
    using loadPlugin_fault [OF Inl] by (simp add: loaded_alone_def)
next
  case (Inr r)
  obtain st1 where
    l: "loadPlugin rs fs st path = Inr (st1, map_option (\<lambda>pl. length (plugins st)) r)"
    and p: "plugins st1 = plugins st @ (case r of None \<Rightarrow> [] | Some pl \<Rightarrow> [pl])"
    using loadPlugin_outcome [OF Inr] by blast
  show ?thesis
    by (cases r) (simp_all add: loaded_alone_def l p Inr)
qed

lemma same_table:
  assumes "file_associations st1 = file_associations st"
  shows "load_returns rs fs st1 = load_returns rs fs st"
    and "loaded_alone rs fs st1 = loaded_alone rs fs st"
  using assms by (auto simp: load_returns_decide loaded_alone_decide)

lemma loadPlugins_loop_outcome:
  "candidates_of fs entries = Returns cs \<Longrightarrow> list_all (load_returns rs fs st) cs \<Longrightarrow>
   \<exists>st1. loadPlugins_loop rs fs st entries loaded
           = Inr (st1, loaded @ [length (plugins st)..<length (plugins st1)])
       \<and> plugins st1 = plugins st @ List.map_filter (loaded_alone rs fs st) cs"
proof (induction entries arbitrary: st loaded cs)
  case Nil
  then show ?case by auto
next
  case (Cons step entries)
  from Cons.prems(1) obtain entry where step: "step = Returns entry"
    by (cases step) auto
  from Cons.prems(1) step obtain c where c: "candidate fs entry = Returns c"
    by (cases "candidate fs entry") auto
  from Cons.prems(1) step c obtain cs1 where
    cs1: "candidates_of fs entries = Returns cs1"
    and cs: "cs = (case c of None \<Rightarrow> cs1 | Some path \<Rightarrow> path # cs1)"
    by (cases "candidates_of fs entries") auto
  show ?case
  proof (cases c)
    case None
    then show ?thesis
      using Cons.IH [OF cs1, of st loaded] Cons.prems(2) step c cs by simp
  next
    case (Some path)
    have returns: "load_returns rs fs st path" and others: "list_all (load_returns rs fs st) cs1"
      using Cons.prems(2) cs Some by simp_all
    obtain r where d: "decide rs fs (file_associations st) path = Inr r"
      using returns by (auto simp: load_returns_decide split: sum.splits)
    obtain st1 where
      l: "loadPlugin rs fs st path = Inr (st1, map_option (\<lambda>pl. length (plugins st)) r)"
      and p: "plugins st1 = plugins st @ (case r of None \<Rightarrow> [] | Some pl \<Rightarrow> [pl])"
      and f: "file_associations st1 = file_associations st"
      using loadPlugin_outcome [OF d] by blast
    have alone: "loaded_alone rs fs st path = r"
      by (simp add: loaded_alone_decide d)
    have others1: "list_all (load_returns rs fs st1) cs1"
      using others by (simp only: same_table(1) [OF f])
    show ?thesis
    proof (cases r)
      case None
      then show ?thesis
        using Cons.IH [OF cs1 others1, of loaded] step c Some cs l p alone
        by (simp add: same_table(2) [OF f])
    next
      case (Some pl)
      obtain st2 where
        r2: "loadPlugins_loop rs fs st1 entries (loaded @ [length (plugins st)])
              = Inr (st2, (loaded @ [length (plugins st)]) @ [length (plugins st1)..<length (plugins st2)])"
        and p2: "plugins st2 = plugins st1 @ List.map_filter (loaded_alone rs fs st) cs1"
        using Cons.IH [OF cs1 others1, of "loaded @ [length (plugins st)]"]
        by (auto simp: same_table(2) [OF f])
      have len1: "length (plugins st1) = Suc (length (plugins st))"
        using p Some by simp
      have "length (plugins st1) \<le> length (plugins st2)"
        using p2 by simp
      then have upt: "[length (plugins st)..<length (plugins st2)]
          = length (plugins st) # [length (plugins st1)..<length (plugins st2)]"
        using len1 by (simp add: upt_conv_Cons)
      show ?thesis
        using step c \<open>c = Some path\<close> cs l Some r2 p2 p upt alone by simp
    qed
  qed
qed

lemma nth_appended: "map (\<lambda>p. (xs @ ys) ! p) [length xs..<length (xs @ ys)] = ys"
proof -
  have "[length xs..<length (xs @ ys)] = map (\<lambda>i. i + length xs) [0..<length ys]"
    by (simp only: map_add_upt length_append add.commute)
  then have "map (\<lambda>p. (xs @ ys) ! p) [length xs..<length (xs @ ys)]
      = map (\<lambda>i. ys ! i) [0..<length ys]"
    by (simp add: o_def nth_append del: upt_Suc)
  then show ?thesis
    by (simp only: map_nth)
qed

text \<open>
  Whatever the state, \<^verbatim>\<open>unsubscribeFromPermission\<close> leaves the subscribers of every
  permission as they were.
\<close>

lemma unsubscribeFromPermission_subscribers:
  "getPermissionSubscriptions (unsubscribeFromPermission st P x) Q = getPermissionSubscriptions st Q"
  by (simp add: getPermissionSubscriptions_def unsubscribeFromPermission_def subscript_def Let_def
      split: option.splits)

text \<open>For a role that has an entry, \<^verbatim>\<open>getDefaultPermissions\<close> returns the entry.\<close>

lemma getDefaultPermissions_present:
  "map_of (default_permissions st) role = Some ps \<Longrightarrow> getDefaultPermissions st role = Inr ps"
  by (simp add: getDefaultPermissions_def)

lemma registerLoader_so: "registerLoader new_manager so_loader = so_registered"
  by (simp add: registerLoader_def so_loader_def so_registered_def new_manager_def)

lemma valid_example: "ValidName (getName example_plugin)"
  by (simp add: ValidName_def name_char_def example_plugin_def)

lemma example_exists:
  "exists_path example_fs ''plugins/good.so'' = Returns True"
  "exists_path example_fs ''plugins/other.so'' = Returns True"
  "exists_path example_fs ''plugins/broken.so'' = Returns True"
  "exists_path example_fs ''plugins/native.dll'' = Returns True"
  "exists_path example_fs ''plugins/good.dll'' = Returns False"
  "exists_path example_fs ''plugins'' = Returns True"
  by (simp_all add: exists_path_def example_fs_def)

lemma example_search:
  "literal_search ''plugins/good.so'' ''so'' = Returns True"
  "literal_search ''plugins/other.so'' ''so'' = Returns True"
  "literal_search ''plugins/broken.so'' ''so'' = Returns True"
  "literal_search ''plugins/native.dll'' ''so'' = Returns False"
  "literal_search ''plugins/native.dll'' ''dll'' = Returns True"
  "literal_search ''plugins/good.dll'' ''so'' = Returns False"
  "literal_search ''plugins/good.dll'' ''dll'' = Returns True"
  by (simp_all add: literal_search_def)

lemma loadPlugin_good:
  "loadPlugin literal_search example_fs so_registered ''plugins/good.so'' = Inr (one_loaded, Some 0)"
proof -
  have l: "PluginLoader_loadPlugin so_loader ''plugins/good.so'' = Returns (Some example_plugin)"
    by (simp add: so_loader_def)
  show ?thesis
    using l valid_example
    by (simp add: loadPlugin_def example_exists example_search so_registered_def one_loaded_def
        new_manager_def Let_def example_plugin_def)
qed

lemma loadPlugin_broken:
  "loadPlugin literal_search example_fs so_registered ''plugins/broken.so'' = Inr (so_registered, None)"
proof -
  have l: "PluginLoader_loadPlugin so_loader ''plugins/broken.so'' = Returns None"
    by (simp add: so_loader_def)
  show ?thesis
    using l
    by (simp add: loadPlugin_def example_exists example_search so_registered_def new_manager_def)
qed

lemma loadPlugin_native:
  "loadPlugin literal_search example_fs so_registered ''plugins/native.dll'' = Inr (so_registered, None)"
  by (simp add: loadPlugin_def example_exists example_search so_registered_def new_manager_def)

lemma example_candidates:
  "candidates example_fs ''plugins''
     = Returns [''plugins/broken.so'', ''plugins/native.dll'', ''plugins/good.so'']"
  by (simp add: candidates_def candidate_def is_regular_file_def is_directory_def
      exists_path_def example_fs_def)

lemma example_directory: "is_directory example_fs ''plugins'' = Returns True"
  by (simp add: is_directory_def example_fs_def)

section \<open>The claims\<close>

subsection \<open>Plugin registry\<close>

text \<open>
  C1. A load whose loader produces a plugin under a name that is already registered should
  fail with a duplicate-name error and leave one plugin of that name. The code at that
  input: after \<^verbatim>\<open>plugins/good.so\<close> has registered the plugin \<^verbatim>\<open>example\<close>, the load of
  \<^verbatim>\<open>plugins/other.so\<close>, whose plugin is also named \<^verbatim>\<open>example\<close>, returns the new instance,
  logs nothing, binds the name to the new instance, and the owning vector holds two
  plugins named \<^verbatim>\<open>example\<close>.
\<close>

theorem loadPlugin_accepts_duplicate_name:
  "loadPlugin literal_search example_fs (registerLoader new_manager so_loader) ''plugins/good.so''
     = Inr (one_loaded, Some 0)
   \<and> getPlugin one_loaded ''example'' = Some 0
   \<and> loadPlugin literal_search example_fs one_loaded ''plugins/other.so'' = Inr (two_loaded, Some 1)
   \<and> logger_error two_loaded = []
   \<and> getPlugin two_loaded ''example'' = Some 1
   \<and> length (filter (\<lambda>p. getName p = ''example'') (plugins two_loaded)) = 2"
proof -
  have l: "PluginLoader_loadPlugin so_loader ''plugins/other.so'' = Returns (Some example_plugin)"
    by (simp add: so_loader_def)
  have second: "loadPlugin literal_search example_fs one_loaded ''plugins/other.so''
       = Inr (two_loaded, Some 1)"
    using l valid_example
    by (simp add: loadPlugin_def example_exists example_search so_registered_def one_loaded_def
        two_loaded_def new_manager_def Let_def example_plugin_def)
  have rest: "getPlugin one_loaded ''example'' = Some 0" "logger_error two_loaded = []"
    "getPlugin two_loaded ''example'' = Some 1"
    "length (filter (\<lambda>p. getName p = ''example'') (plugins two_loaded)) = 2"
    by (simp_all add: getPlugin_def one_loaded_def two_loaded_def so_registered_def
        new_manager_def example_plugin_def)
  show ?thesis
    using loadPlugin_good second rest by (simp only: registerLoader_so simp_thms)
qed

text \<open>
  C3. Registering a loader should leave every one of its patterns with a usable loader.
  The code at a loader that declares two patterns: the first pattern gets the loader, the
  second gets a null pointer, and a load of a file that matches the second pattern
  dereferences it.
\<close>

theorem registerLoader_second_pattern_null:
  "map_of (file_associations (registerLoader new_manager native_loader)) ''so''
     = Some (Some native_loader)
   \<and> map_of (file_associations (registerLoader new_manager native_loader)) ''dll'' = Some None
   \<and> loadPlugin literal_search example_fs (registerLoader new_manager native_loader)
        ''plugins/good.dll''
     = Inl NullLoaderDereference"
proof -
  have fa: "file_associations (registerLoader new_manager native_loader)
     = [(''so'', Some native_loader), (''dll'', None)]"
    by (simp add: registerLoader_def native_loader_def new_manager_def)
  show ?thesis
    using fa by (simp add: loadPlugin_def example_exists example_search)
qed

text \<open>
  C6, as stated, fails at three inputs. With the loader of two patterns registered, the
  scan of \<^verbatim>\<open>plugins\<close> reaches \<^verbatim>\<open>plugins/native.dll\<close>, whose pattern holds a null loader, and
  does not return, although \<^verbatim>\<open>plugins/good.so\<close> loads when it is loaded alone. With a
  loader that throws on \<^verbatim>\<open>plugins/broken.so\<close>, the exception ends the process inside the
  \<^verbatim>\<open>noexcept\<close> scan, although \<^verbatim>\<open>plugins/good.so\<close> loads when it is loaded alone. With a
  directory iterator that throws after its first entry the process ends in the same way.
\<close>

theorem loadPlugins_aborted_by_fault:
  "is_directory example_fs ''plugins'' = Returns True
   \<and> registerLoader new_manager native_loader = native_registered
   \<and> loaded_alone literal_search example_fs native_registered ''plugins/good.so''
       = Some example_plugin
   \<and> loadPlugins literal_search example_fs native_registered ''plugins''
       = Inl NullLoaderDereference
   \<and> registerLoader new_manager throwing_loader = throwing_registered
   \<and> loaded_alone literal_search example_fs throwing_registered ''plugins/good.so''
       = Some example_plugin
   \<and> loadPlugins literal_search example_fs throwing_registered ''plugins'' = Inl Terminate
   \<and> is_directory failing_iterator_fs ''plugins'' = Returns True
   \<and> loaded_alone literal_search failing_iterator_fs so_registered ''plugins/good.so''
       = Some example_plugin
   \<and> loadPlugins literal_search failing_iterator_fs so_registered ''plugins'' = Inl Terminate"
proof -
  have fe: "exists_path failing_iterator_fs ''plugins'' = Returns True"
    "exists_path failing_iterator_fs ''plugins/good.so'' = Returns True"
    "is_directory failing_iterator_fs ''plugins'' = Returns True"
    "candidate failing_iterator_fs ''plugins/good.so'' = Returns (Some ''plugins/good.so'')"
    by (simp_all add: candidate_def is_regular_file_def is_directory_def exists_path_def
        failing_iterator_fs_def example_fs_def)
  have fi: "directory_iterator failing_iterator_fs ''plugins'' = [Returns ''plugins/good.so'', Throws]"
    by (simp add: failing_iterator_fs_def)
  have fl: "loadPlugin literal_search failing_iterator_fs so_registered ''plugins/good.so''
      = Inr (one_loaded, Some 0)"
    using valid_example
    by (simp add: loadPlugin_def fe example_search so_registered_def one_loaded_def
        new_manager_def Let_def example_plugin_def so_loader_def)
  have a3: "loaded_alone literal_search failing_iterator_fs so_registered ''plugins/good.so''
       = Some example_plugin"
    by (simp add: loaded_alone_def fl one_loaded_def)
  have s3: "loadPlugins literal_search failing_iterator_fs so_registered ''plugins'' = Inl Terminate"
    by (simp add: loadPlugins_def fe fi fl)
  have r1: "registerLoader new_manager native_loader = native_registered"
    by (simp add: registerLoader_def native_loader_def native_registered_def new_manager_def)
  have r2: "registerLoader new_manager throwing_loader = throwing_registered"
    by (simp add: registerLoader_def throwing_loader_def throwing_registered_def new_manager_def)
  have n: "PluginLoader_loadPlugin native_loader ''plugins/good.so'' = Returns (Some example_plugin)"
    "PluginLoader_loadPlugin native_loader ''plugins/broken.so'' = Returns (Some example_plugin)"
    by (simp_all add: native_loader_def)
  have t: "PluginLoader_loadPlugin throwing_loader ''plugins/good.so'' = Returns (Some example_plugin)"
    "PluginLoader_loadPlugin throwing_loader ''plugins/broken.so'' = Throws"
    by (simp_all add: throwing_loader_def)
  have c: "candidate example_fs ''plugins/broken.so'' = Returns (Some ''plugins/broken.so'')"
    "candidate example_fs ''plugins/empty'' = Returns None"
    "candidate example_fs ''plugins/native.dll'' = Returns (Some ''plugins/native.dll'')"
    by (simp_all add: candidate_def is_regular_file_def is_directory_def exists_path_def
        example_fs_def)
  have it: "directory_iterator example_fs ''plugins''
      = [Returns ''plugins/broken.so'', Returns ''plugins/empty'',
         Returns ''plugins/native.dll'', Returns ''plugins/good.so'']"
    by (simp add: example_fs_def)
  have a1: "loaded_alone literal_search example_fs native_registered ''plugins/good.so''
       = Some example_plugin"
    using n valid_example
    by (simp add: loaded_alone_def loadPlugin_def example_exists example_search
        native_registered_def new_manager_def Let_def)
  have a2: "loaded_alone literal_search example_fs throwing_registered ''plugins/good.so''
       = Some example_plugin"
    using t valid_example
    by (simp add: loaded_alone_def loadPlugin_def example_exists example_search
        throwing_registered_def new_manager_def Let_def)
  have b1: "loadPlugin literal_search example_fs native_registered ''plugins/broken.so''
       = Inr (native_registered\<lparr>lookup_names := [''example'' \<mapsto> 0],
                                plugins := [example_plugin]\<rparr>, Some 0)"
    using n valid_example
    by (simp add: loadPlugin_def example_exists example_search native_registered_def
        new_manager_def Let_def example_plugin_def)
  have b2: "loadPlugin literal_search example_fs
        (native_registered\<lparr>lookup_names := [''example'' \<mapsto> 0], plugins := [example_plugin]\<rparr>)
        ''plugins/native.dll'' = Inl NullLoaderDereference"
    by (simp add: loadPlugin_def example_exists example_search native_registered_def
        new_manager_def)
  have s1: "loadPlugins literal_search example_fs native_registered ''plugins''
       = Inl NullLoaderDereference"
    by (simp add: loadPlugins_def example_exists example_directory it c b1 b2)
  have b3: "loadPlugin literal_search example_fs throwing_registered ''plugins/broken.so''
       = Inl Terminate"
    using t
    by (simp add: loadPlugin_def example_exists example_search throwing_registered_def
        new_manager_def)
  have s2: "loadPlugins literal_search example_fs throwing_registered ''plugins'' = Inl Terminate"
    by (simp add: loadPlugins_def example_exists example_directory it c b3)
  show ?thesis
    by (intro conjI example_directory r1 r2 a1 a2 s1 s2 fe(3) a3 s3)
qed

text \<open>
  C6, amended. For a directory that exists and whose listing can be read, if the load of
  each candidate, taken alone from the initial state, returns (with a plugin or with a null
  pointer), then \<^verbatim>\<open>loadPlugins\<close> returns, and it returns exactly the candidates that load:
  the returned pointers are the positions of the plugins the scan appended to the owning
  vector, and these plugins are, in scan order, the plugin that each candidate yields when
  it is loaded alone from the initial state, the candidates that fail being left out. So a
  candidate whose load returns a failure neither stops the scan nor changes what the
  others yield.
\<close>

theorem loadPlugins_isolates_failures:
  assumes "is_directory fs D = Returns True"
    and "candidates fs D = Returns cs"
    and "list_all (load_returns rs fs st) cs"
  shows "\<exists>st1 ps. loadPlugins rs fs st D = Inr (st1, ps)
       \<and> ps = [length (plugins st)..<length (plugins st1)]
       \<and> plugins st1 = plugins st @ List.map_filter (loaded_alone rs fs st) cs
       \<and> map (\<lambda>p. plugins st1 ! p) ps = List.map_filter (loaded_alone rs fs st) cs"
proof -
  have ex: "exists_path fs D = Returns True"
    using assms(1) by (auto simp: is_directory_def exists_path_def split: call.splits)
  obtain st1 where
    r: "loadPlugins_loop rs fs st (directory_iterator fs D) []
          = Inr (st1, [] @ [length (plugins st)..<length (plugins st1)])"
    and p: "plugins st1 = plugins st @ List.map_filter (loaded_alone rs fs st) cs"
    using loadPlugins_loop_outcome [OF assms(2) [unfolded candidates_def] assms(3), of "[]"]
    by blast
  have "map (\<lambda>p. plugins st1 ! p) [length (plugins st)..<length (plugins st1)]
      = List.map_filter (loaded_alone rs fs st) cs"
    using nth_appended [of "plugins st" "List.map_filter (loaded_alone rs fs st) cs"]
    by (simp only: p)
  then show ?thesis
    using r p ex assms(1) by (simp add: loadPlugins_def)
qed

theorem loadPlugins_isolates_failures_witness:
  "is_directory example_fs ''plugins'' = Returns True
   \<and> candidates example_fs ''plugins''
       = Returns [''plugins/broken.so'', ''plugins/native.dll'', ''plugins/good.so'']
   \<and> list_all (load_returns literal_search example_fs so_registered)
       [''plugins/broken.so'', ''plugins/native.dll'', ''plugins/good.so'']
   \<and> loaded_alone literal_search example_fs so_registered ''plugins/broken.so'' = None
   \<and> loaded_alone literal_search example_fs so_registered ''plugins/native.dll'' = None
   \<and> loaded_alone literal_search example_fs so_registered ''plugins/good.so'' = Some example_plugin
   \<and> (\<exists>st1. loadPlugins literal_search example_fs so_registered ''plugins'' = Inr (st1, [0])
          \<and> plugins st1 = [example_plugin])"
proof -
  have h3: "list_all (load_returns literal_search example_fs so_registered)
       [''plugins/broken.so'', ''plugins/native.dll'', ''plugins/good.so'']"
    by (simp add: load_returns_def loadPlugin_broken loadPlugin_native loadPlugin_good)
  have b: "loaded_alone literal_search example_fs so_registered ''plugins/broken.so'' = None"
    by (simp add: loaded_alone_def loadPlugin_broken)
  have n: "loaded_alone literal_search example_fs so_registered ''plugins/native.dll'' = None"
    by (simp add: loaded_alone_def loadPlugin_native)
  have g: "loaded_alone literal_search example_fs so_registered ''plugins/good.so'' = Some example_plugin"
    by (simp add: loaded_alone_def loadPlugin_good one_loaded_def)
  have p: "plugins so_registered = []"
    by (simp add: so_registered_def new_manager_def)
  obtain st1 ps where
    r: "loadPlugins literal_search example_fs so_registered ''plugins'' = Inr (st1, ps)"
    and ps: "ps = [length (plugins so_registered)..<length (plugins st1)]"
    and pl: "plugins st1 = plugins so_registered
        @ List.map_filter (loaded_alone literal_search example_fs so_registered)
            [''plugins/broken.so'', ''plugins/native.dll'', ''plugins/good.so'']"
    using loadPlugins_isolates_failures [OF example_directory example_candidates h3] by blast
  have "plugins st1 = [example_plugin]"
    using pl by (simp add: b n g p)
  then show ?thesis
    using example_directory example_candidates h3 b n g r ps p by simp
qed

text \<open>
  C7. Enabling a plugin that is already enabled changes nothing: no command is registered,
  no message is logged, the plugin is as it was, whatever the loader's hook. With the
  default hook of \<^verbatim>\<open>PluginLoader\<close> a plugin is enabled after \<^verbatim>\<open>enablePlugin\<close>, so a second
  \<^verbatim>\<open>enablePlugin\<close> leaves the result of the first as it is.
\<close>

theorem enablePlugin_idempotent:
  "(isEnabled (plugin e) \<longrightarrow> enablePlugin hook e = e) \<and>
   (let e1 = enablePlugin PluginLoader_enablePlugin e
    in isEnabled (plugin e1) \<and> enablePlugin PluginLoader_enablePlugin e1 = e1)"
  by (simp add: enablePlugin_def PluginLoader_enablePlugin_def Let_def)

theorem enablePlugin_idempotent_witness:
  "isEnabled (plugin enabled_example)
   \<and> enablePlugin PluginLoader_enablePlugin enabled_example = enabled_example
   \<and> enablePlugin PluginLoader_enablePlugin enabling_example = enabled_example"
proof -
  have h: "isEnabled (plugin enabled_example)"
    by (simp add: enabled_example_def)
  have first: "enablePlugin PluginLoader_enablePlugin enabling_example = enabled_example"
    by (simp add: enablePlugin_def Let_def PluginLoader_enablePlugin_def example_plugin_def
        enabling_example_def enabled_example_def)
  show ?thesis
    using h first
      enablePlugin_idempotent [of enabled_example PluginLoader_enablePlugin]
      enablePlugin_idempotent [of enabling_example PluginLoader_enablePlugin]
    by (simp add: Let_def)
qed

text \<open>
  C10. For a name under which no plugin is registered, \<^verbatim>\<open>getPlugin\<close> returns the null
  pointer and \<^verbatim>\<open>isPluginEnabled\<close> on the name returns false; \<^verbatim>\<open>isPluginEnabled\<close> on a null
  pointer returns false. Both functions are total.
\<close>

theorem getPlugin_unregistered:
  "lookup_names st N = None \<Longrightarrow>
   getPlugin st N = None \<and> \<not> isPluginEnabled_name st N \<and> \<not> isPluginEnabled st None"
  by (simp add: getPlugin_def isPluginEnabled_name_def isPluginEnabled_def)

theorem getPlugin_unregistered_witness:
  "lookup_names registered_plugin ''other'' = None
   \<and> getPlugin registered_plugin ''other'' = None
   \<and> \<not> isPluginEnabled_name registered_plugin ''other''
   \<and> \<not> isPluginEnabled registered_plugin None"
proof -
  have h: "lookup_names registered_plugin ''other'' = None"
    by (simp add: registered_plugin_def new_manager_def)
  show ?thesis
    using h getPlugin_unregistered [OF h] by simp
qed

subsection \<open>Permission registry\<close>

text \<open>
  C4. Removing a node should take it out of the node table and out of every role's default
  set. The code at a node that is in the default set of operators: \<^verbatim>\<open>addPermission("x")\<close>
  creates the node, its policy is set to grant operators, and
  \<^verbatim>\<open>recalculatePermissionDefaults\<close> puts it into the default set of operators. After
  \<^verbatim>\<open>removePermission("x")\<close> the node is gone from the table and its object is destroyed,
  but the default set of operators still holds its address. No subscriber is notified by
  the removal.
\<close>

theorem removePermission_leaves_default:
  "addPermission allow_none with_roles ''x'' True = (x_plain, 0)
   \<and> recalculatePermissionDefaults x_policy_set 0 operator_x = x_granted
   \<and> getPermission x_granted ''x'' = Some 0
   \<and> getDefaultPermissions x_granted Operator = Inr [0]
   \<and> getPermission (removePermission x_granted ''x'') ''x'' = None
   \<and> permission_objects (removePermission x_granted ''x'') 0 = None
   \<and> getDefaultPermissions (removePermission x_granted ''x'') Operator = Inr [0]
   \<and> recalculated (removePermission x_granted ''x'') = recalculated x_granted"
proof -
  have add: "addPermission allow_none with_roles ''x'' True = (x_plain, 0)"
    by (simp add: addPermission_def Let_def with_roles_def x_plain_def new_manager_def
        lower_name_def tolower_def calculatePermissionDefault_def SimplePermission_def
        allow_none_def)
  have recalc: "recalculatePermissionDefaults x_policy_set 0 operator_x = x_granted"
    by (simp add: recalculatePermissionDefaults_def calculatePermissionDefault_def Let_def
        x_granted_def x_policy_set_def x_plain_def with_roles_def new_manager_def
        operator_x_def granted_to_operator_def push_back_for_def updatePermissibles_def
        getDefaultPermissionSubscriptions_def)
  have removed: "removePermission x_granted ''x''
      = x_granted\<lparr>permissions := Map.empty, permission_objects := Map.empty\<rparr>"
    by (simp add: removePermission_def x_granted_def x_policy_set_def x_plain_def
        with_roles_def new_manager_def lower_name_def tolower_def)
  have before: "getPermission x_granted ''x'' = Some 0"
    "getDefaultPermissions x_granted Operator = Inr [0]"
    by (simp_all add: getPermission_def getDefaultPermissions_def x_granted_def
        x_policy_set_def x_plain_def with_roles_def new_manager_def lower_name_def tolower_def)
  have after: "getPermission (removePermission x_granted ''x'') ''x'' = None"
    "permission_objects (removePermission x_granted ''x'') 0 = None"
    "getDefaultPermissions (removePermission x_granted ''x'') Operator = Inr [0]"
    "recalculated (removePermission x_granted ''x'') = recalculated x_granted"
    unfolding removed
    by (simp_all add: getPermission_def getDefaultPermissions_def x_granted_def
        x_policy_set_def x_plain_def with_roles_def new_manager_def)
  show ?thesis
    by (intro conjI add recalc before after)
qed

text \<open>
  C5. The defaults of a role that has no entry in the table should be an empty set, not a
  failure. The code at such a role: the lookup dereferences the end iterator, both on a
  manager with an empty table and on one whose table has entries for other roles only.
\<close>

theorem getDefaultPermissions_absent_role:
  "getDefaultPermissions new_manager Operator = Inl EndIteratorDereference
   \<and> getDefaultPermissions (new_manager\<lparr>default_permissions := [(Operator, [])]\<rparr>) Console
       = Inl EndIteratorDereference"
  by (simp add: getDefaultPermissions_def new_manager_def)

text \<open>
  C8. A second \<^verbatim>\<open>addPermission\<close> of a name returns the node that the first call returned
  and changes the state in one place only: the message that the permission is already
  defined is appended to the error log. The node's policy, the default sets and the list
  of notified permissibles are as the first call left them.
\<close>

theorem addPermission_twice:
  "addPermission dflt st X u = (st1, a) \<Longrightarrow>
   addPermission dflt' st1 X u' =
     (st1\<lparr>logger_error := logger_error st1 @ [already_defined (lower_name X)]\<rparr>, a)"
  by (drule addPermission_registers) (simp add: addPermission_def Let_def)

theorem addPermission_twice_witness:
  "addPermission granted_to_operator with_roles ''x'' True = (x_added, 0)
   \<and> addPermission (\<lambda>r. True) x_added ''x'' True
       = (x_added\<lparr>logger_error := [''The permission x is already defined.'']\<rparr>, 0)"
proof -
  have e: "logger_error x_added = []"
    by (simp add: x_added_def with_roles_def new_manager_def)
  show ?thesis
    using addPermission_x addPermission_twice [OF addPermission_x, of "\<lambda>r. True" True] e
    by (simp add: already_defined_def lower_name_def tolower_def)
qed

text \<open>
  C9. Permission names are canonicalised to lower case. The key under which
  \<^verbatim>\<open>addPermission(N)\<close> stores the node equals \<open>N\<close> up to ASCII case and holds no upper-case
  letter, and a node that the call creates carries that key as its name. After the call,
  \<^verbatim>\<open>getPermission(M)\<close> returns the node that the call returned for every \<open>M\<close> that equals
  \<open>N\<close> up to ASCII case, and for every other \<open>M\<close> it returns what it returned before the
  call.
\<close>

theorem getPermission_ignores_case:
  assumes add: "addPermission dflt st N u = (st1, a)"
  shows "(equal_ignoring_case M N \<longrightarrow> getPermission st1 M = Some a)
       \<and> (\<not> equal_ignoring_case M N \<longrightarrow> getPermission st1 M = getPermission st M)
       \<and> equal_ignoring_case (lower_name N) N
       \<and> list_all (\<lambda>c. \<not> ascii_upper c) (lower_name N)
       \<and> permissions st1 (lower_name N) = Some a
       \<and> (getPermission st N = None \<longrightarrow>
            permission_objects st1 a = Some \<lparr>permission_name = lower_name N, getDefault = dflt\<rparr>)"
proof -
  have key: "permissions st1 (lower_name N) = Some a"
    using add by (rule addPermission_registers)
  have same: "equal_ignoring_case M N \<longrightarrow> getPermission st1 M = Some a"
    using key by (auto simp: getPermission_def dest: equal_ignoring_case_lower_name)
  have other: "\<not> equal_ignoring_case M N \<longrightarrow> getPermission st1 M = getPermission st M"
  proof
    assume "\<not> equal_ignoring_case M N"
    then have "lower_name M \<noteq> lower_name N"
      using lower_name_equal_ignoring_case by blast
    then show "getPermission st1 M = getPermission st M"
      using addPermission_other_names [OF add] by (simp add: getPermission_def)
  qed
  have new: "getPermission st N = None \<longrightarrow>
      permission_objects st1 a = Some \<lparr>permission_name = lower_name N, getDefault = dflt\<rparr>"
    using addPermission_new_object [OF add] by blast
  show ?thesis
    using same other key new lower_name_same lower_name_no_upper by blast
qed

theorem getPermission_ignores_case_witness:
  "addPermission allow_none new_manager ''Foo.Bar'' True = (foo_bar_added, 0)
   \<and> equal_ignoring_case ''foo.bar'' ''Foo.Bar''
   \<and> getPermission foo_bar_added ''foo.bar'' = Some 0
   \<and> \<not> equal_ignoring_case ''foo.baz'' ''Foo.Bar''
   \<and> getPermission foo_bar_added ''foo.baz'' = None
   \<and> getPermission new_manager ''Foo.Bar'' = None
   \<and> permissions foo_bar_added ''foo.bar'' = Some 0
   \<and> permission_objects foo_bar_added 0
       = Some \<lparr>permission_name = ''foo.bar'', getDefault = allow_none\<rparr>"
proof -
  have low: "lower_name ''Foo.Bar'' = ''foo.bar''"
    by code_simp
  have add: "addPermission allow_none new_manager ''Foo.Bar'' True = (foo_bar_added, 0)"
    by (simp add: addPermission_def Let_def foo_bar_added_def new_manager_def low
        calculatePermissionDefault_def SimplePermission_def)
  have eq: "equal_ignoring_case ''foo.bar'' ''Foo.Bar''"
    by (simp add: equal_ignoring_case_def same_letter_def ascii_upper_def)
  have ne: "\<not> equal_ignoring_case ''foo.baz'' ''Foo.Bar''"
    by (simp add: equal_ignoring_case_def same_letter_def ascii_upper_def)
  have absent: "getPermission new_manager ''Foo.Bar'' = None" "getPermission new_manager ''foo.baz'' = None"
    by (simp_all add: getPermission_def new_manager_def)
  show ?thesis
    using add eq ne absent low
      getPermission_ignores_case [OF add, of "''foo.bar''"]
      getPermission_ignores_case [OF add, of "''foo.baz''"]
    by simp
qed

subsection \<open>Subscription index\<close>

text \<open>
  C2. Unsubscribing should remove the permissible from the subscribers of the permission.
  The code after \<^verbatim>\<open>subscribeToPermission("Foo", 7)\<close> and
  \<^verbatim>\<open>unsubscribeFromPermission("Foo", 7)\<close>: 7 is still a subscriber of \<^verbatim>\<open>Foo\<close>. On a name
  without subscribers the call adds an entry with an empty map to the index.
\<close>

theorem unsubscribeFromPermission_keeps_subscriber:
  "getPermissionSubscriptions (subscribeToPermission new_manager ''Foo'' 7) ''Foo'' = [7]
   \<and> getPermissionSubscriptions
       (unsubscribeFromPermission (subscribeToPermission new_manager ''Foo'' 7) ''Foo'' 7) ''Foo''
     = [7]
   \<and> permission_subscriptions new_manager ''p'' = None
   \<and> permission_subscriptions (unsubscribeFromPermission new_manager ''p'' 7) ''p'' = Some []"
  by (simp add: getPermissionSubscriptions_def unsubscribeFromPermission_def
      subscribeToPermission_def subscript_def new_manager_def lower_name_def tolower_def Let_def)

end
